theory Spec2Isabelle
  imports Main
begin

section \<open>Session and credit ledger of the qubit-discovery-hub front end\<close>

text \<open>
  The development embeds the session and credit-ledger code of the front end:
  \<^verbatim>\<open>contexts/AuthContext.tsx\<close> (profile resolution, the session observer and
  \<^verbatim>\<open>updatePoints\<close>) and the four paid-feature handlers that debit the balance
  (\<^verbatim>\<open>handleApproachSelection\<close>, \<^verbatim>\<open>handleProcessSmiles\<close>,
  \<^verbatim>\<open>generate2DStructure\<close>, \<^verbatim>\<open>open3DVisualization\<close>).

  Conventions of the embedding.
  \<^item> The React state of \<^verbatim>\<open>AuthProvider\<close> and the browser's \<^verbatim>\<open>localStorage\<close> form one
    record that every function takes and returns.
  \<^item> A stored item is identified with the profile it encodes: the code only ever stores
    \<^verbatim>\<open>JSON.stringify\<close> of a profile and reads it back with \<^verbatim>\<open>JSON.parse\<close>; both are the
    platform's, and the text of a profile is never the empty string.
  \<^item> An awaited promise is given by its settled outcome, a parameter of the function that
    awaits it; \<^verbatim>\<open>new Date().toISOString()\<close> is the parameter \<open>now\<close> (every path reads the
    clock exactly once).
  \<^item> A handler reads \<^verbatim>\<open>profile\<close> and \<^verbatim>\<open>updatePoints\<close> from the context value of the render
    that created it. That captured profile is an explicit argument, so a handler that
    finishes after the state has moved on can be expressed as well; in a sequential run
    it is the \<open>profile\<close> field of the state.
  \<^item> The field \<open>trace\<close> lists, oldest first, the calls made to the collaborators
    (storage writes, identity provider, analysis backend, toasts) and the calls of
    \<^verbatim>\<open>updatePoints\<close>. Console output is left out.
  \<^item> \<^verbatim>\<open>token_points\<close> is a JavaScript number holding an integer; it is an \<open>int\<close> here.
\<close>

subsection \<open>Data\<close>

record UserProfile =
  id' :: string
  email :: string
  token_points :: int
  created_at :: string

text \<open>The fields of the provider's \<^verbatim>\<open>User\<close> and \<^verbatim>\<open>Session\<close> that the code reads.\<close>

record User =
  user_id :: string
  user_email :: "string option"
  email_confirmed_at :: "string option"

record Session =
  access_token :: string
  session_user :: User

text \<open>The settled outcome of an awaited promise.\<close>

datatype 'a promise = Rejected string | Resolved 'a

text \<open>The analysis backend's JSON bodies, with the fields the handlers read.
  \<open>visualization\<close> is the result of \<^verbatim>\<open>atob\<close> on the field: \<open>None\<close> when \<^verbatim>\<open>atob\<close> throws.\<close>

record Isomer =
  smiles :: string
  visualization :: "string option"

record body =
  success :: bool
  error :: "string option"
  detail :: "string option"
  total_isomers :: "int option"
  structure_2d :: "string option"
  isomers :: "Isomer list option"

text \<open>The outcome of \<^verbatim>\<open>await fetch(...)\<close> followed by \<^verbatim>\<open>await response.json()\<close>:
  the fetch rejects, or it yields a response with its \<^verbatim>\<open>ok\<close> flag and its body
  (\<open>None\<close> when \<^verbatim>\<open>response.json()\<close> rejects).\<close>

datatype fetch_outcome = NetworkError | Response bool "body option"

datatype approach = classical | quantum | both

datatype feature = FileAnalysis | SmilesAnalysis | Visualization2D | Visualization3D

text \<open>The toasts. \<open>Insufficient f cost have\<close> is the \<^verbatim>\<open>toast.error\<close> "Insufficient points
  ... You need cost points but only have have"; \<open>Deducted f cost remaining\<close> is the
  \<^verbatim>\<open>toast.success\<close> that reports the debit. The other texts, some of which quote the
  backend's own message, are kept by kind only.\<close>

datatype toast =
    EnterSmiles
  | ProfileNotLoaded
  | Insufficient feature int int
  | Deducted feature int int
  | Starting approach
  | Completed approach
  | Failed feature
  | NetworkErrorToast feature

datatype event =
    SetItem string UserProfile
  | GetUser
  | Fetch string
  | Call_updatePoints int
  | Toast toast
  | WindowOpen
  | WindowWrite
  | UnhandledRejection string

record AuthState =
  user :: "User option"
  session :: "Session option"
  profile :: "UserProfile option"
  loading :: bool
  localStorage :: "string \<rightharpoonup> UserProfile"
  trace :: "event list"

definition emit :: "event \<Rightarrow> AuthState \<Rightarrow> AuthState" where
  "emit e w = w\<lparr>trace := trace w @ [e]\<rparr>"

text \<open>\<^verbatim>\<open>localStorage.setItem(key, JSON.stringify(p))\<close>.\<close>

definition setItem :: "string \<Rightarrow> UserProfile \<Rightarrow> AuthState \<Rightarrow> AuthState" where
  "setItem k p w = emit (SetItem k p) (w\<lparr>localStorage := (localStorage w)(k \<mapsto> p)\<rparr>)"

text \<open>The template string \<^verbatim>\<open>`user_profile_${userId}`\<close>.\<close>

definition profile_key :: "string \<Rightarrow> string" where
  "profile_key userId = ''user_profile_'' @ userId"

text \<open>The state of a freshly mounted \<^verbatim>\<open>AuthProvider\<close> (the \<^verbatim>\<open>useState\<close> initial values)
  in a browser whose storage is empty.\<close>

definition initial_state :: AuthState where
  "initial_state =
     \<lparr>user = None, session = None, profile = None, loading = True,
      localStorage = Map.empty, trace = []\<rparr>"

subsection \<open>Profile resolution (\<^verbatim>\<open>fetchUserProfile\<close>, \<^verbatim>\<open>createUserProfile\<close>)\<close>

text \<open>\<^verbatim>\<open>userData.user?.email || ''\<close>.\<close>

definition email_or_empty :: "User option \<Rightarrow> string" where
  "email_or_empty u =
     (case u of None \<Rightarrow> []
      | Some x \<Rightarrow> (case user_email x of None \<Rightarrow> [] | Some e \<Rightarrow> e))"

text \<open>Lines 52 to 78 of \<^verbatim>\<open>fetchUserProfile\<close>: what runs once no saved profile was found.
  The \<^verbatim>\<open>catch\<close> block is the \<open>Rejected\<close> branch.\<close>

definition fetchUserProfile_new ::
  "string \<Rightarrow> User option promise \<Rightarrow> string \<Rightarrow> AuthState \<Rightarrow> AuthState" where
  "fetchUserProfile_new userId getUser now w =
     (let w1 = emit GetUser w in
      case getUser of
        Resolved userData \<Rightarrow>
          (let p = \<lparr>id' = userId, email = email_or_empty userData,
                    token_points = 1000, created_at = now\<rparr>;
               w2 = setItem (profile_key userId) p w1
           in w2\<lparr>profile := Some p, loading := False\<rparr>)
      | Rejected err \<Rightarrow>
          (let fallbackProfile = \<lparr>id' = userId, email = [],
                                  token_points = 1000, created_at = now\<rparr>;
               w2 = setItem (profile_key userId) fallbackProfile w1
           in w2\<lparr>profile := Some fallbackProfile, loading := False\<rparr>))"

definition fetchUserProfile ::
  "string \<Rightarrow> User option promise \<Rightarrow> string \<Rightarrow> AuthState \<Rightarrow> AuthState" where
  "fetchUserProfile userId getUser now w =
     (case localStorage w (profile_key userId) of
        Some parsedProfile \<Rightarrow> w\<lparr>profile := Some parsedProfile, loading := False\<rparr>
      | None \<Rightarrow> fetchUserProfile_new userId getUser now w)"


subsection \<open>Session observer (the \<^verbatim>\<open>useEffect\<close> of \<^verbatim>\<open>AuthProvider\<close>)\<close>

text \<open>The callback given to \<^verbatim>\<open>getSession().then\<close>.\<close>

definition getSession_then ::
  "Session option \<Rightarrow> User option promise \<Rightarrow> string \<Rightarrow> AuthState \<Rightarrow> AuthState" where
  "getSession_then s getUser now w =
     (let w1 = w\<lparr>session := s, user := map_option session_user s\<rparr> in
      case s of
        Some ses \<Rightarrow> fetchUserProfile (user_id (session_user ses)) getUser now w1
      | None \<Rightarrow> w1\<lparr>loading := False\<rparr>)"

text \<open>\<^verbatim>\<open>supabase.auth.getSession().then(callback)\<close>, with no rejection handler: when the
  promise rejects the callback does not run and the rejection is left unhandled.\<close>

definition initial_session_fetch ::
  "Session option promise \<Rightarrow> User option promise \<Rightarrow> string \<Rightarrow> AuthState \<Rightarrow> AuthState" where
  "initial_session_fetch getSession getUser now w =
     (case getSession of
        Resolved s \<Rightarrow> getSession_then s getUser now w
      | Rejected err \<Rightarrow> emit (UnhandledRejection err) w)"

text \<open>The callback given to \<^verbatim>\<open>onAuthStateChange\<close>; \<open>ev\<close> is the provider's event name,
  which the callback only prints.\<close>

definition onAuthStateChange ::
  "string \<Rightarrow> Session option \<Rightarrow> User option promise \<Rightarrow> string \<Rightarrow> AuthState \<Rightarrow> AuthState" where
  "onAuthStateChange ev s getUser now w =
     (let w1 = w\<lparr>session := s, user := map_option session_user s\<rparr> in
      case s of
        Some ses \<Rightarrow> fetchUserProfile (user_id (session_user ses)) getUser now w1
      | None \<Rightarrow> w1\<lparr>profile := None, loading := False\<rparr>)"

subsection \<open>Ledger mutator (\<^verbatim>\<open>updatePoints\<close>)\<close>

text \<open>The first argument is the \<^verbatim>\<open>profile\<close> of the render whose \<^verbatim>\<open>updatePoints\<close> is called.\<close>

definition updatePoints :: "UserProfile option \<Rightarrow> int \<Rightarrow> AuthState \<Rightarrow> AuthState" where
  "updatePoints captured newPoints w =
     (case captured of
        None \<Rightarrow> w
      | Some p \<Rightarrow>
          (let updatedProfile = p\<lparr>token_points := newPoints\<rparr>;
               w1 = w\<lparr>profile := Some updatedProfile\<rparr>
           in setItem (profile_key (id' p)) updatedProfile w1))"

text \<open>A call of \<^verbatim>\<open>updatePoints\<close> from a handler, noted in the trace with its argument.\<close>

definition call_updatePoints :: "UserProfile option \<Rightarrow> int \<Rightarrow> AuthState \<Rightarrow> AuthState" where
  "call_updatePoints captured newPoints w =
     updatePoints captured newPoints (emit (Call_updatePoints newPoints) w)"

subsection \<open>Bulk file analysis (\<^verbatim>\<open>handleApproachSelection\<close> of the index page)\<close>

record IndexState =
  isAnalyzing :: bool
  results :: "body option"
  showUpload :: bool
  selectedFile :: "string option"
  showApproachSelection :: bool

definition POINTS_COST :: "approach \<Rightarrow> int" where
  "POINTS_COST a = (case a of classical \<Rightarrow> 20 | quantum \<Rightarrow> 35 | both \<Rightarrow> 50)"

text \<open>The \<^verbatim>\<open>try\<close>/\<^verbatim>\<open>catch\<close>/\<^verbatim>\<open>finally\<close> of the handler, entered after the debit.
  A rejected fetch, a rejected \<^verbatim>\<open>response.json()\<close> and the error thrown on a response
  that is not ok all end in the \<^verbatim>\<open>catch\<close> block.\<close>

definition upload_and_process ::
  "approach \<Rightarrow> fetch_outcome \<Rightarrow> IndexState \<Rightarrow> AuthState \<Rightarrow> IndexState \<times> AuthState" where
  "upload_and_process a r st w =
     (let w1 = emit (Fetch ''/api/upload-and-process'') w in
      case r of
        Response True (Some result) \<Rightarrow>
          (st\<lparr>results := Some result, selectedFile := None,
              showApproachSelection := False, showUpload := False, isAnalyzing := False\<rparr>,
           emit (Toast (Completed a)) w1)
      | _ \<Rightarrow> (st\<lparr>isAnalyzing := False\<rparr>, emit (Toast (Failed FileAnalysis)) w1))"

definition handleApproachSelection ::
  "approach \<Rightarrow> UserProfile option \<Rightarrow> fetch_outcome \<Rightarrow> IndexState \<Rightarrow> AuthState
     \<Rightarrow> IndexState \<times> AuthState" where
  "handleApproachSelection a captured r st w =
     (case selectedFile st of
        None \<Rightarrow> (st, w)
      | Some file \<Rightarrow>
          (let cost = POINTS_COST a in
           case captured of
             None \<Rightarrow> (st, emit (Toast ProfileNotLoaded) w)
           | Some p \<Rightarrow>
               if token_points p < cost
               then (st, emit (Toast (Insufficient FileAnalysis cost (token_points p))) w)
               else
                 (let newPoints = token_points p - cost;
                      w1 = call_updatePoints captured newPoints w;
                      w2 = emit (Toast (Deducted FileAnalysis cost newPoints)) w1;
                      st1 = st\<lparr>isAnalyzing := True\<rparr>;
                      w3 = emit (Toast (Starting a)) w2
                  in upload_and_process a r st1 w3)))"

subsection \<open>SMILES isomer generation (\<^verbatim>\<open>handleProcessSmiles\<close>)\<close>

record SmilesState =
  smilesInput :: string
  isProcessing :: bool
  smilesResults :: "body option"

text \<open>\<^verbatim>\<open>String.prototype.trim\<close> on the ASCII white space (tab, line feed, vertical tab,
  form feed, carriage return, space).\<close>

definition is_space :: "char \<Rightarrow> bool" where
  "is_space c = (c \<in> set [CHR 0x09, CHR 0x0A, CHR 0x0B, CHR 0x0C, CHR 0x0D, CHR 0x20])"

definition trim :: "string \<Rightarrow> string" where
  "trim s = rev (dropWhile is_space (rev (dropWhile is_space s)))"

definition handleProcessSmiles ::
  "UserProfile option \<Rightarrow> fetch_outcome \<Rightarrow> SmilesState \<Rightarrow> AuthState
     \<Rightarrow> SmilesState \<times> AuthState" where
  "handleProcessSmiles captured r st w =
     (if trim (smilesInput st) = [] then (st, emit (Toast EnterSmiles) w)
      else case captured of
        None \<Rightarrow> (st, emit (Toast ProfileNotLoaded) w)
      | Some p \<Rightarrow>
          (let cost = 7 in
           if token_points p < cost
           then (st, emit (Toast (Insufficient SmilesAnalysis cost (token_points p))) w)
           else
             (let st1 = st\<lparr>isProcessing := True, smilesResults := None\<rparr>;
                  w1 = emit (Fetch ''/api/process-smiles'') w
              in case r of
                   Response True (Some result) \<Rightarrow>
                     (let st2 = st1\<lparr>smilesResults := Some result\<rparr> in
                      if success result
                      then
                        (let newPoints = token_points p - cost;
                             w2 = call_updatePoints captured newPoints w1
                         in (st2\<lparr>isProcessing := False\<rparr>,
                             emit (Toast (Deducted SmilesAnalysis cost newPoints)) w2))
                      else (st2\<lparr>isProcessing := False\<rparr>,
                            emit (Toast (Failed SmilesAnalysis)) w1))
                 | Response False (Some errorData) \<Rightarrow>
                     (st1\<lparr>isProcessing := False\<rparr>, emit (Toast (Failed SmilesAnalysis)) w1)
                 | _ \<Rightarrow>
                     (st1\<lparr>isProcessing := False\<rparr>,
                      emit (Toast (NetworkErrorToast SmilesAnalysis)) w1))))"

subsection \<open>2D and 3D visualization (\<^verbatim>\<open>Molecule3DViewer\<close>)\<close>

record ViewerState =
  isLoading :: bool
  structure2D :: "string option"
  showVisualization :: bool

text \<open>JavaScript truthiness of an optional string: present and not empty.\<close>

definition truthy :: "string option \<Rightarrow> bool" where
  "truthy x = (case x of None \<Rightarrow> False | Some s \<Rightarrow> s \<noteq> [])"

definition generate2DStructure ::
  "UserProfile option \<Rightarrow> fetch_outcome \<Rightarrow> ViewerState \<Rightarrow> AuthState
     \<Rightarrow> ViewerState \<times> AuthState" where
  "generate2DStructure captured r st w =
     (if truthy (structure2D st)
      then (st\<lparr>showVisualization := \<not> showVisualization st\<rparr>, w)
      else case captured of
        None \<Rightarrow> (st, emit (Toast ProfileNotLoaded) w)
      | Some p \<Rightarrow>
          (let cost = 1 in
           if token_points p < cost
           then (st, emit (Toast (Insufficient Visualization2D cost (token_points p))) w)
           else
             (let st1 = st\<lparr>isLoading := True\<rparr>;
                  w1 = emit (Fetch ''/api/generate-2d-structure'') w
              in case r of
                   Response True (Some data) \<Rightarrow>
                     if success data \<and> truthy (structure_2d data)
                     then
                       (let st2 = st1\<lparr>structure2D := structure_2d data,
                                       showVisualization := True\<rparr>;
                            newPoints = token_points p - cost;
                            w2 = call_updatePoints captured newPoints w1
                        in (st2\<lparr>isLoading := False\<rparr>,
                            emit (Toast (Deducted Visualization2D cost newPoints)) w2))
                     else (st1\<lparr>isLoading := False\<rparr>,
                           emit (Toast (Failed Visualization2D)) w1)
                 | Response True None \<Rightarrow>
                     (st1\<lparr>isLoading := False\<rparr>,
                      emit (Toast (NetworkErrorToast Visualization2D)) w1)
                 | Response False b \<Rightarrow>
                     (st1\<lparr>isLoading := False\<rparr>, emit (Toast (Failed Visualization2D)) w1)
                 | NetworkError \<Rightarrow>
                     (st1\<lparr>isLoading := False\<rparr>,
                      emit (Toast (NetworkErrorToast Visualization2D)) w1))))"

text \<open>\<open>newWindow\<close> tells whether \<^verbatim>\<open>window.open\<close> returned a window.\<close>

definition open3DVisualization ::
  "UserProfile option \<Rightarrow> fetch_outcome \<Rightarrow> bool \<Rightarrow> ViewerState \<Rightarrow> AuthState
     \<Rightarrow> ViewerState \<times> AuthState" where
  "open3DVisualization captured r newWindow st w =
     (case captured of
        None \<Rightarrow> (st, emit (Toast ProfileNotLoaded) w)
      | Some p \<Rightarrow>
          (let cost = 3 in
           if token_points p < cost
           then (st, emit (Toast (Insufficient Visualization3D cost (token_points p))) w)
           else
             (let st1 = st\<lparr>isLoading := True\<rparr>;
                  w1 = emit (Fetch ''/api/process-smiles'') w
              in case r of
                   Response True (Some data) \<Rightarrow>
                     (case (if success data then isomers data else None) of
                        Some (mostStable # rest) \<Rightarrow>
                          (case visualization mostStable of
                             None \<Rightarrow>
                               (st1\<lparr>isLoading := False\<rparr>,
                                emit (Toast (NetworkErrorToast Visualization3D)) w1)
                           | Some decodedHtml \<Rightarrow>
                               (let w2 = emit WindowOpen w1;
                                    w3 = (if newWindow then emit WindowWrite w2 else w2);
                                    newPoints = token_points p - cost;
                                    w4 = call_updatePoints captured newPoints w3
                                in (st1\<lparr>isLoading := False\<rparr>,
                                    emit (Toast (Deducted Visualization3D cost newPoints)) w4)))
                      | _ \<Rightarrow>
                          (st1\<lparr>isLoading := False\<rparr>,
                           emit (Toast (Failed Visualization3D)) w1))
                 | Response True None \<Rightarrow>
                     (st1\<lparr>isLoading := False\<rparr>,
                      emit (Toast (NetworkErrorToast Visualization3D)) w1)
                 | Response False b \<Rightarrow>
                     (st1\<lparr>isLoading := False\<rparr>, emit (Toast (Failed Visualization3D)) w1)
                 | NetworkError \<Rightarrow>
                     (st1\<lparr>isLoading := False\<rparr>,
                      emit (Toast (NetworkErrorToast Visualization3D)) w1))))"

subsection \<open>Reading the trace\<close>

fun is_write :: "event \<Rightarrow> bool" where
  "is_write (SetItem k p) = True"
| "is_write e = False"

definition storage_writes :: "event list \<Rightarrow> nat" where
  "storage_writes evs = length (filter is_write evs)"

fun is_ledger_call :: "event \<Rightarrow> bool" where
  "is_ledger_call (Call_updatePoints n) = True"
| "is_ledger_call e = False"

fun is_unhandled :: "event \<Rightarrow> bool" where
  "is_unhandled (UnhandledRejection e) = True"
| "is_unhandled e = False"

text \<open>The events a step added: the trace of the later state without that of the earlier.\<close>

definition new_events :: "AuthState \<Rightarrow> AuthState \<Rightarrow> event list" where
  "new_events w w' = drop (length (trace w)) (trace w')"

text \<open>A backend call that did not succeed: the fetch was rejected, the status was not ok,
  the body could not be read, or the body's \<^verbatim>\<open>success\<close> flag is false.\<close>

definition backend_failed :: "fetch_outcome \<Rightarrow> bool" where
  "backend_failed r =
     (case r of
        NetworkError \<Rightarrow> True
      | Response ok b \<Rightarrow> \<not> ok \<or> (case b of None \<Rightarrow> True | Some res \<Rightarrow> \<not> success res))"

subsection \<open>Reachable states\<close>

text \<open>
  The states the application can be in: a fresh start, a page reload (the React state is
  reset, the storage stays), the two callbacks of the session observer, and the four
  paid-feature handlers with any backend outcome and any component state. The handlers
  and \<^verbatim>\<open>fetchUserProfile\<close> suspend at an \<^verbatim>\<open>await\<close>, so what runs after it may meet a state that
  has moved on: a handler may carry the profile of any state reached (\<open>w0\<close>), and the part
  of \<^verbatim>\<open>fetchUserProfile\<close> that follows its storage lookup may run on its own. This admits
  more interleavings than a browser produces, which only strengthens an invariant.
\<close>

inductive reachable :: "AuthState \<Rightarrow> bool" where
  start: "reachable initial_state"
| reload: "reachable w \<Longrightarrow>
    reachable (w\<lparr>user := None, session := None, profile := None, loading := True\<rparr>)"
| initial_fetch: "reachable w \<Longrightarrow> reachable (initial_session_fetch gs gu now w)"
| auth_change: "reachable w \<Longrightarrow> reachable (onAuthStateChange ev s gu now w)"
| late_profile: "reachable w \<Longrightarrow> reachable (fetchUserProfile_new userId gu now w)"
| file_analysis: "reachable w \<Longrightarrow> reachable w0 \<Longrightarrow>
    reachable (snd (handleApproachSelection a (profile w0) r ist w))"
| smiles_analysis: "reachable w \<Longrightarrow> reachable w0 \<Longrightarrow>
    reachable (snd (handleProcessSmiles (profile w0) r sst w))"
| view_2d: "reachable w \<Longrightarrow> reachable w0 \<Longrightarrow>
    reachable (snd (generate2DStructure (profile w0) r vst w))"
| view_3d: "reachable w \<Longrightarrow> reachable w0 \<Longrightarrow>
    reachable (snd (open3DVisualization (profile w0) r nw vst w))"

text \<open>The invariant behind the balance claim: no negative balance is held, stored, written
  or passed to \<^verbatim>\<open>updatePoints\<close>.\<close>

definition nonneg_profile :: "UserProfile option \<Rightarrow> bool" where
  "nonneg_profile x = (case x of None \<Rightarrow> True | Some p \<Rightarrow> 0 \<le> token_points p)"

fun nonneg_event :: "event \<Rightarrow> bool" where
  "nonneg_event (Call_updatePoints n) = (0 \<le> n)"
| "nonneg_event (SetItem k p) = (0 \<le> token_points p)"
| "nonneg_event e = True"

definition nonneg_state :: "AuthState \<Rightarrow> bool" where
  "nonneg_state w =
     (nonneg_profile (profile w) \<and> (\<forall>k. nonneg_profile (localStorage w k)) \<and>
      list_all nonneg_event (trace w))"

subsection \<open>Scenario data\<close>

definition scenario_now :: string where
  "scenario_now = ''2025-01-01T00:00:00.000Z''"

definition scenario_profile :: "int \<Rightarrow> UserProfile" where
  "scenario_profile b =
     \<lparr>id' = ''u1'', email = ''a@b.com'', token_points = b, created_at = scenario_now\<rparr>"

definition scenario_user :: User where
  "scenario_user = \<lparr>user_id = ''u1'', user_email = Some ''a@b.com'', email_confirmed_at = None\<rparr>"

definition scenario_session :: Session where
  "scenario_session = \<lparr>access_token = ''token'', session_user = scenario_user\<rparr>"

definition scenario_body :: body where
  "scenario_body =
     \<lparr>success = True, error = None, detail = None, total_isomers = Some 1,
      structure_2d = Some ''iVBORw0KGgo='',
      isomers = Some [\<lparr>smiles = ''CCO'', visualization = Some ''<html></html>''\<rparr>]\<rparr>"

definition scenario_index :: IndexState where
  "scenario_index =
     \<lparr>isAnalyzing = False, results = None, showUpload = True,
      selectedFile = Some ''ligand.mol2'', showApproachSelection = True\<rparr>"

definition scenario_smiles :: SmilesState where
  "scenario_smiles = \<lparr>smilesInput = ''CCO'', isProcessing = False, smilesResults = None\<rparr>"

definition scenario_viewer :: ViewerState where
  "scenario_viewer = \<lparr>isLoading = False, structure2D = None, showVisualization = False\<rparr>"

text \<open>A signed-in state holding \<open>scenario_profile b\<close>, persisted under its key.\<close>

definition scenario_state :: "int \<Rightarrow> AuthState" where
  "scenario_state b =
     \<lparr>user = Some scenario_user, session = Some scenario_session,
      profile = Some (scenario_profile b), loading = False,
      localStorage = [profile_key ''u1'' \<mapsto> scenario_profile b], trace = []\<rparr>"

section \<open>Properties\<close>

subsection \<open>Field equations of the basic operations\<close>

lemma emit_fields:
  "user (emit e w) = user w" "session (emit e w) = session w"
  "profile (emit e w) = profile w" "loading (emit e w) = loading w"
  "localStorage (emit e w) = localStorage w" "trace (emit e w) = trace w @ [e]"
  by (simp_all add: emit_def)

lemma setItem_fields:
  "user (setItem k p w) = user w" "session (setItem k p w) = session w"
  "profile (setItem k p w) = profile w" "loading (setItem k p w) = loading w"
  "localStorage (setItem k p w) = (localStorage w)(k \<mapsto> p)"
  "trace (setItem k p w) = trace w @ [SetItem k p]"
  by (simp_all add: setItem_def emit_def)

lemma updatePoints_None: "updatePoints None n w = w"
  by (simp add: updatePoints_def)

lemma updatePoints_Some_fields:
  "user (updatePoints (Some p) n w) = user w"
  "session (updatePoints (Some p) n w) = session w"
  "profile (updatePoints (Some p) n w) = Some (p\<lparr>token_points := n\<rparr>)"
  "loading (updatePoints (Some p) n w) = loading w"
  "localStorage (updatePoints (Some p) n w) =
     (localStorage w)(profile_key (id' p) \<mapsto> p\<lparr>token_points := n\<rparr>)"
  "trace (updatePoints (Some p) n w) =
     trace w @ [SetItem (profile_key (id' p)) (p\<lparr>token_points := n\<rparr>)]"
  by (simp_all add: updatePoints_def Let_def setItem_fields)

lemma call_updatePoints_fields:
  "user (call_updatePoints (Some p) n w) = user w"
  "session (call_updatePoints (Some p) n w) = session w"
  "profile (call_updatePoints (Some p) n w) = Some (p\<lparr>token_points := n\<rparr>)"
  "loading (call_updatePoints (Some p) n w) = loading w"
  "localStorage (call_updatePoints (Some p) n w) =
     (localStorage w)(profile_key (id' p) \<mapsto> p\<lparr>token_points := n\<rparr>)"
  "trace (call_updatePoints (Some p) n w) =
     trace w @ [Call_updatePoints n, SetItem (profile_key (id' p)) (p\<lparr>token_points := n\<rparr>)]"
  by (simp_all add: call_updatePoints_def updatePoints_Some_fields emit_fields)

lemma new_events_append: "trace w' = trace w @ evs \<Longrightarrow> new_events w w' = evs"
  by (simp add: new_events_def)

subsection \<open>What a run of each handler does\<close>

lemma handleApproachSelection_run:
  fixes a p r st w f
  defines "q \<equiv> p\<lparr>token_points := token_points p - POINTS_COST a\<rparr>"
  defines "w' \<equiv> snd (handleApproachSelection a (Some p) r st w)"
  assumes "selectedFile st = Some f" "POINTS_COST a \<le> token_points p"
  shows "profile w' = Some q"
    and "localStorage w' = (localStorage w)(profile_key (id' p) \<mapsto> q)"
    and "trace w' = trace w @
           [Call_updatePoints (token_points q), SetItem (profile_key (id' p)) q,
            Toast (Deducted FileAnalysis (POINTS_COST a) (token_points q)), Toast (Starting a),
            Fetch ''/api/upload-and-process'',
            Toast (case r of Response True (Some res) \<Rightarrow> Completed a | _ \<Rightarrow> Failed FileAnalysis)]"
  using assms(3,4) unfolding w'_def q_def
  by (simp_all add: handleApproachSelection_def upload_and_process_def Let_def
      call_updatePoints_fields emit_fields
      split: fetch_outcome.splits option.splits bool.splits)

lemma handleProcessSmiles_success:
  fixes p res st w
  defines "q \<equiv> p\<lparr>token_points := token_points p - 7\<rparr>"
  defines "w' \<equiv> snd (handleProcessSmiles (Some p) (Response True (Some res)) st w)"
  assumes "trim (smilesInput st) \<noteq> []" "7 \<le> token_points p" "success res"
  shows "profile w' = Some q"
    and "localStorage w' = (localStorage w)(profile_key (id' p) \<mapsto> q)"
    and "trace w' = trace w @
           [Fetch ''/api/process-smiles'', Call_updatePoints (token_points q),
            SetItem (profile_key (id' p)) q,
            Toast (Deducted SmilesAnalysis 7 (token_points q))]"
  using assms(3-5) unfolding w'_def q_def
  by (simp_all add: handleProcessSmiles_def Let_def call_updatePoints_fields emit_fields)



lemma handleProcessSmiles_failed:
  assumes "backend_failed r"
  shows "\<exists>evs. profile (snd (handleProcessSmiles cp r st w)) = profile w \<and>
           localStorage (snd (handleProcessSmiles cp r st w)) = localStorage w \<and>
           trace (snd (handleProcessSmiles cp r st w)) = trace w @ evs \<and>
           filter is_ledger_call evs = [] \<and> filter is_write evs = []"
  using assms
  by (simp add: handleProcessSmiles_def backend_failed_def Let_def emit_fields
      split: fetch_outcome.splits option.splits bool.splits)

lemma generate2DStructure_failed:
  assumes "backend_failed r"
  shows "\<exists>evs. profile (snd (generate2DStructure cp r st w)) = profile w \<and>
           localStorage (snd (generate2DStructure cp r st w)) = localStorage w \<and>
           trace (snd (generate2DStructure cp r st w)) = trace w @ evs \<and>
           filter is_ledger_call evs = [] \<and> filter is_write evs = []"
  using assms
  by (simp add: generate2DStructure_def backend_failed_def Let_def emit_fields
      split: fetch_outcome.splits option.splits bool.splits)

lemma open3DVisualization_failed:
  assumes "backend_failed r"
  shows "\<exists>evs. profile (snd (open3DVisualization cp r nw st w)) = profile w \<and>
           localStorage (snd (open3DVisualization cp r nw st w)) = localStorage w \<and>
           trace (snd (open3DVisualization cp r nw st w)) = trace w @ evs \<and>
           filter is_ledger_call evs = [] \<and> filter is_write evs = []"
  using assms
  by (simp add: open3DVisualization_def backend_failed_def Let_def emit_fields
      split: fetch_outcome.splits option.splits bool.splits list.splits)

subsection \<open>Profile resolution\<close>

lemma fetchUserProfile_new_fields:
  "profile (fetchUserProfile_new userId gu now w) =
     Some \<lparr>id' = userId, email = (case gu of Resolved u \<Rightarrow> email_or_empty u | Rejected e \<Rightarrow> []),
           token_points = 1000, created_at = now\<rparr>"
  "localStorage (fetchUserProfile_new userId gu now w) =
     (localStorage w)(profile_key userId \<mapsto>
       \<lparr>id' = userId, email = (case gu of Resolved u \<Rightarrow> email_or_empty u | Rejected e \<Rightarrow> []),
        token_points = 1000, created_at = now\<rparr>)"
  "trace (fetchUserProfile_new userId gu now w) =
     trace w @ [GetUser, SetItem (profile_key userId)
       \<lparr>id' = userId, email = (case gu of Resolved u \<Rightarrow> email_or_empty u | Rejected e \<Rightarrow> []),
        token_points = 1000, created_at = now\<rparr>]"
  "loading (fetchUserProfile_new userId gu now w) = False"
  "user (fetchUserProfile_new userId gu now w) = user w"
  "session (fetchUserProfile_new userId gu now w) = session w"
  by (cases gu; simp add: fetchUserProfile_new_def Let_def setItem_fields emit_fields)+

lemma fetchUserProfile_saved:
  "localStorage w (profile_key userId) = Some p \<Longrightarrow>
   fetchUserProfile userId gu now w = w\<lparr>profile := Some p, loading := False\<rparr>"
  by (simp add: fetchUserProfile_def)

lemma fetchUserProfile_absent:
  "localStorage w (profile_key userId) = None \<Longrightarrow>
   fetchUserProfile userId gu now w = fetchUserProfile_new userId gu now w"
  by (simp add: fetchUserProfile_def)

lemma fetchUserProfile_cases:
  "(\<exists>p. fetchUserProfile userId gu now w = w\<lparr>profile := Some p, loading := False\<rparr>) \<or>
   fetchUserProfile userId gu now w = fetchUserProfile_new userId gu now w"
  by (cases "localStorage w (profile_key userId)")
    (auto simp: fetchUserProfile_saved fetchUserProfile_absent)

lemma fetchUserProfile_frame:
  "user (fetchUserProfile userId gu now w) = user w"
  "session (fetchUserProfile userId gu now w) = session w"
  "loading (fetchUserProfile userId gu now w) = False"
  "filter is_unhandled (new_events w (fetchUserProfile userId gu now w)) = []"
  using fetchUserProfile_cases [of userId gu now w]
  by (auto simp: fetchUserProfile_new_fields new_events_def)

subsection \<open>The balance invariant\<close>

lemma nonneg_emit: "nonneg_state w \<Longrightarrow> nonneg_event e \<Longrightarrow> nonneg_state (emit e w)"
  by (simp add: nonneg_state_def emit_fields)

lemma nonneg_setItem:
  "nonneg_state w \<Longrightarrow> 0 \<le> token_points p \<Longrightarrow> nonneg_state (setItem k p w)"
  by (simp add: nonneg_state_def setItem_fields nonneg_profile_def)

lemma nonneg_set_profile:
  "nonneg_state w \<Longrightarrow> nonneg_profile x \<Longrightarrow> nonneg_state (w\<lparr>profile := x\<rparr>)"
  by (simp add: nonneg_state_def)

lemma nonneg_other_fields:
  "nonneg_state (w\<lparr>loading := b\<rparr>) = nonneg_state w"
  "nonneg_state (w\<lparr>user := u\<rparr>) = nonneg_state w"
  "nonneg_state (w\<lparr>session := s\<rparr>) = nonneg_state w"
  by (simp_all add: nonneg_state_def)

lemma nonneg_stored: "nonneg_state w \<Longrightarrow> localStorage w k = Some p \<Longrightarrow> 0 \<le> token_points p"
  unfolding nonneg_state_def nonneg_profile_def
  by (metis option.simps(5))

lemma nonneg_fetchUserProfile_new:
  "nonneg_state w \<Longrightarrow> nonneg_state (fetchUserProfile_new userId gu now w)"
  by (cases gu)
    (simp_all add: fetchUserProfile_new_def Let_def nonneg_other_fields nonneg_set_profile
      nonneg_setItem nonneg_emit nonneg_profile_def)

lemma nonneg_fetchUserProfile:
  "nonneg_state w \<Longrightarrow> nonneg_state (fetchUserProfile userId gu now w)"
  by (cases "localStorage w (profile_key userId)")
    (auto simp: fetchUserProfile_def nonneg_fetchUserProfile_new nonneg_other_fields
      nonneg_profile_def intro!: nonneg_set_profile dest: nonneg_stored)

lemma nonneg_initial_session_fetch:
  "nonneg_state w \<Longrightarrow> nonneg_state (initial_session_fetch gs gu now w)"
  by (auto simp: initial_session_fetch_def getSession_then_def Let_def nonneg_other_fields
      nonneg_emit nonneg_fetchUserProfile split: promise.splits option.splits)

lemma nonneg_onAuthStateChange:
  "nonneg_state w \<Longrightarrow> nonneg_state (onAuthStateChange ev s gu now w)"
  by (auto simp: onAuthStateChange_def Let_def nonneg_other_fields nonneg_profile_def
      nonneg_fetchUserProfile nonneg_set_profile split: option.splits)

lemma nonneg_call_updatePoints:
  "nonneg_state w \<Longrightarrow> 0 \<le> n \<Longrightarrow> nonneg_state (call_updatePoints cp n w)"
  by (cases cp)
    (simp_all add: call_updatePoints_def updatePoints_def Let_def nonneg_emit nonneg_setItem
      nonneg_set_profile nonneg_profile_def)

lemma nonneg_handleApproachSelection:
  "nonneg_state w \<Longrightarrow> nonneg_state (snd (handleApproachSelection a cp r ist w))"
  by (simp add: handleApproachSelection_def upload_and_process_def Let_def nonneg_emit
      nonneg_call_updatePoints split: fetch_outcome.splits option.splits bool.splits)

lemma nonneg_handleProcessSmiles:
  "nonneg_state w \<Longrightarrow> nonneg_state (snd (handleProcessSmiles cp r sst w))"
  by (simp add: handleProcessSmiles_def Let_def nonneg_emit
      nonneg_call_updatePoints split: fetch_outcome.splits option.splits bool.splits)

lemma nonneg_generate2DStructure:
  "nonneg_state w \<Longrightarrow> nonneg_state (snd (generate2DStructure cp r vst w))"
  by (simp add: generate2DStructure_def Let_def nonneg_emit
      nonneg_call_updatePoints split: fetch_outcome.splits option.splits bool.splits)

lemma nonneg_open3DVisualization:
  "nonneg_state w \<Longrightarrow> nonneg_state (snd (open3DVisualization cp r nw vst w))"
  by (simp add: open3DVisualization_def Let_def nonneg_emit
      nonneg_call_updatePoints split: fetch_outcome.splits option.splits bool.splits list.splits)

lemma reachable_nonneg: "reachable w \<Longrightarrow> nonneg_state w"
proof (induction rule: reachable.induct)
  case start
  show ?case by (simp add: nonneg_state_def initial_state_def nonneg_profile_def)
next
  case (reload w)
  then show ?case by (simp add: nonneg_state_def nonneg_profile_def)
qed (simp_all add: nonneg_initial_session_fetch nonneg_onAuthStateChange
    nonneg_fetchUserProfile_new nonneg_handleApproachSelection nonneg_handleProcessSmiles
    nonneg_generate2DStructure nonneg_open3DVisualization)

section \<open>The claims\<close>

text \<open>
  In the statements below \<open>p\<close> is the profile held by the render whose handler runs, \<open>w\<close> the
  state the handler meets, and \<open>snd\<close> of a handler's result the state it leaves.
\<close>



text \<open>
  Claim C2. When the balance is below the price, each handler stops with the
  insufficient-points toast, which names the price and the balance: the state it leaves is
  the state it met with that one toast added to the trace, so there is no backend call, no
  call of \<^verbatim>\<open>updatePoints\<close>, and the held and the persisted profile are unchanged.
\<close>

theorem insufficient_balance_refused:
  "(selectedFile ist = Some f \<and> token_points p < POINTS_COST a \<longrightarrow>
      handleApproachSelection a (Some p) r ist w =
        (ist, emit (Toast (Insufficient FileAnalysis (POINTS_COST a) (token_points p))) w)) \<and>
   (trim (smilesInput sst) \<noteq> [] \<and> token_points p < 7 \<longrightarrow>
      handleProcessSmiles (Some p) r sst w =
        (sst, emit (Toast (Insufficient SmilesAnalysis 7 (token_points p))) w)) \<and>
   (\<not> truthy (structure2D vst) \<and> token_points p < 1 \<longrightarrow>
      generate2DStructure (Some p) r vst w =
        (vst, emit (Toast (Insufficient Visualization2D 1 (token_points p))) w)) \<and>
   (token_points p < 3 \<longrightarrow>
      open3DVisualization (Some p) r nw vst w =
        (vst, emit (Toast (Insufficient Visualization3D 3 (token_points p))) w))"
  by (simp add: handleApproachSelection_def handleProcessSmiles_def generate2DStructure_def
      open3DVisualization_def Let_def)

theorem insufficient_balance_refused_witness:
  "selectedFile scenario_index = Some ''ligand.mol2'' \<and>
   token_points (scenario_profile 20) < POINTS_COST quantum \<and>
   handleApproachSelection quantum (Some (scenario_profile 20)) (Response True (Some scenario_body))
       scenario_index (scenario_state 20) =
     (scenario_index, emit (Toast (Insufficient FileAnalysis 35 20)) (scenario_state 20))"
proof -
  have h: "selectedFile scenario_index = Some ''ligand.mol2'' \<and>
           token_points (scenario_profile 20) < POINTS_COST quantum"
    by (simp add: scenario_index_def POINTS_COST_def scenario_profile_def)
  have c: "POINTS_COST quantum = 35" "token_points (scenario_profile 20) = 20"
    by (simp_all add: POINTS_COST_def scenario_profile_def)
  show ?thesis
    using h c
      insufficient_balance_refused [where ist = scenario_index and f = "''ligand.mol2''"
        and a = quantum and p = "scenario_profile 20" and w = "scenario_state 20"
        and r = "Response True (Some scenario_body)"]
    by simp
qed

text \<open>
  Claim C3. In every reachable state the held profile and every persisted profile have a
  balance that is not negative, and every call of \<^verbatim>\<open>updatePoints\<close> recorded in the trace was
  made with an argument that is not negative.
\<close>

theorem balance_never_negative:
  assumes "reachable w"
  shows "(\<forall>p. profile w = Some p \<longrightarrow> 0 \<le> token_points p) \<and>
         (\<forall>k p. localStorage w k = Some p \<longrightarrow> 0 \<le> token_points p) \<and>
         (\<forall>n. Call_updatePoints n \<in> set (trace w) \<longrightarrow> 0 \<le> n)"
proof -
  have inv: "nonneg_state w" using assms by (rule reachable_nonneg)
  have 1: "\<forall>p. profile w = Some p \<longrightarrow> 0 \<le> token_points p"
    using inv by (auto simp: nonneg_state_def nonneg_profile_def)
  have 2: "\<forall>k p. localStorage w k = Some p \<longrightarrow> 0 \<le> token_points p"
    using inv by (blast dest: nonneg_stored)
  have "list_all nonneg_event (trace w)" using inv by (simp add: nonneg_state_def)
  then have 3: "\<forall>n. Call_updatePoints n \<in> set (trace w) \<longrightarrow> 0 \<le> n"
    by (force simp: list_all_iff)
  from 1 2 3 show ?thesis by blast
qed

theorem balance_never_negative_witness:
  "reachable (snd (handleProcessSmiles (Some (scenario_profile 1000))
       (Response True (Some scenario_body)) scenario_smiles
       (onAuthStateChange ''SIGNED_IN'' (Some scenario_session) (Resolved (Some scenario_user))
          scenario_now initial_state))) \<and>
   profile (snd (handleProcessSmiles (Some (scenario_profile 1000))
       (Response True (Some scenario_body)) scenario_smiles
       (onAuthStateChange ''SIGNED_IN'' (Some scenario_session) (Resolved (Some scenario_user))
          scenario_now initial_state))) = Some (scenario_profile 993) \<and>
   0 \<le> token_points (scenario_profile 993)"
proof -
  let ?w1 = "onAuthStateChange ''SIGNED_IN'' (Some scenario_session)
               (Resolved (Some scenario_user)) scenario_now initial_state"
  let ?w2 = "snd (handleProcessSmiles (Some (scenario_profile 1000))
               (Response True (Some scenario_body)) scenario_smiles ?w1)"
  have r1: "reachable ?w1"
    by (rule reachable.auth_change [OF reachable.start])
  have p1: "profile ?w1 = Some (scenario_profile 1000)"
    by (simp add: onAuthStateChange_def fetchUserProfile_def fetchUserProfile_new_fields
        initial_state_def scenario_session_def scenario_user_def scenario_profile_def
        email_or_empty_def)
  have "reachable (snd (handleProcessSmiles (profile ?w1)
               (Response True (Some scenario_body)) scenario_smiles ?w1))"
    by (rule reachable.smiles_analysis [OF r1 r1])
  then have r2: "reachable ?w2" by (simp only: p1)
  have i: "trim (smilesInput scenario_smiles) \<noteq> []"
    by (simp add: scenario_smiles_def trim_def is_space_def)
  have p2: "profile ?w2 = Some (scenario_profile 993)"
    using handleProcessSmiles_success(1) [OF i, of "scenario_profile 1000" scenario_body ?w1]
    by (simp add: scenario_profile_def scenario_body_def)
  from balance_never_negative [OF r2] p2
  have "0 \<le> token_points (scenario_profile 993)" by blast
  with r2 p2 show ?thesis by blast
qed

text \<open>
  Claim C4. For SMILES isomer generation and the 2D and 3D visualizations, a run whose
  backend call fails (rejected fetch, status not ok, unreadable body, or a body whose
  \<^verbatim>\<open>success\<close> flag is false) leaves the held profile and the stored profiles as they were,
  calls \<^verbatim>\<open>updatePoints\<close> not at all and writes nothing to the store.
\<close>

theorem charge_after_gates_keep_balance_on_failure:
  assumes "backend_failed r"
  shows "(let w' = snd (handleProcessSmiles cp r sst w)
          in profile w' = profile w \<and> localStorage w' = localStorage w \<and>
             filter is_ledger_call (new_events w w') = [] \<and>
             storage_writes (new_events w w') = 0) \<and>
         (let w' = snd (generate2DStructure cp r vst w)
          in profile w' = profile w \<and> localStorage w' = localStorage w \<and>
             filter is_ledger_call (new_events w w') = [] \<and>
             storage_writes (new_events w w') = 0) \<and>
         (let w' = snd (open3DVisualization cp r nw vst w)
          in profile w' = profile w \<and> localStorage w' = localStorage w \<and>
             filter is_ledger_call (new_events w w') = [] \<and>
             storage_writes (new_events w w') = 0)"
proof -
  obtain e1 where s: "profile (snd (handleProcessSmiles cp r sst w)) = profile w"
      "localStorage (snd (handleProcessSmiles cp r sst w)) = localStorage w"
      "trace (snd (handleProcessSmiles cp r sst w)) = trace w @ e1"
      "filter is_ledger_call e1 = []" "filter is_write e1 = []"
    using handleProcessSmiles_failed [OF assms] by blast
  obtain e2 where t: "profile (snd (generate2DStructure cp r vst w)) = profile w"
      "localStorage (snd (generate2DStructure cp r vst w)) = localStorage w"
      "trace (snd (generate2DStructure cp r vst w)) = trace w @ e2"
      "filter is_ledger_call e2 = []" "filter is_write e2 = []"
    using generate2DStructure_failed [OF assms] by blast
  obtain e3 where u: "profile (snd (open3DVisualization cp r nw vst w)) = profile w"
      "localStorage (snd (open3DVisualization cp r nw vst w)) = localStorage w"
      "trace (snd (open3DVisualization cp r nw vst w)) = trace w @ e3"
      "filter is_ledger_call e3 = []" "filter is_write e3 = []"
    using open3DVisualization_failed [OF assms] by blast
  show ?thesis
    unfolding Let_def storage_writes_def
    using s t u by (simp add: new_events_append)
qed

theorem charge_after_gates_keep_balance_on_failure_witness:
  "backend_failed NetworkError \<and>
   profile (snd (handleProcessSmiles (Some (scenario_profile 50)) NetworkError scenario_smiles
                  (scenario_state 50))) = Some (scenario_profile 50) \<and>
   localStorage (snd (generate2DStructure (Some (scenario_profile 50)) NetworkError
                  scenario_viewer (scenario_state 50))) (profile_key ''u1'') =
     Some (scenario_profile 50) \<and>
   profile (snd (open3DVisualization (Some (scenario_profile 50)) NetworkError True
                  scenario_viewer (scenario_state 50))) = Some (scenario_profile 50)"
proof -
  have h: "backend_failed NetworkError" by (simp add: backend_failed_def)
  show ?thesis
    using h charge_after_gates_keep_balance_on_failure [OF h,
        where cp = "Some (scenario_profile 50)" and w = "scenario_state 50"
          and sst = scenario_smiles and vst = scenario_viewer and nw = True]
    by (simp add: Let_def scenario_state_def)
qed

text \<open>
  Claim C5. The file-analysis handler debits first: with a file selected and a balance
  that covers the price, the events of a run are, in this order, the call of
  \<^verbatim>\<open>updatePoints\<close> with balance minus price, the store write of the debited profile, two
  toasts, the backend call and one closing toast. Whatever the backend answers, the run
  ends with the debited profile held and persisted; a failed call is followed by no second
  write, so nothing is refunded.
\<close>

theorem file_analysis_debits_before_backend_call:
  assumes "selectedFile st = Some f" and "POINTS_COST a \<le> token_points p"
  shows "let q = p\<lparr>token_points := token_points p - POINTS_COST a\<rparr>;
             w' = snd (handleApproachSelection a (Some p) r st w)
         in profile w' = Some q \<and>
            localStorage w' = (localStorage w)(profile_key (id' p) \<mapsto> q) \<and>
            trace w' = trace w @
              [Call_updatePoints (token_points q), SetItem (profile_key (id' p)) q,
               Toast (Deducted FileAnalysis (POINTS_COST a) (token_points q)), Toast (Starting a),
               Fetch ''/api/upload-and-process'',
               Toast (case r of Response True (Some res) \<Rightarrow> Completed a
                      | _ \<Rightarrow> Failed FileAnalysis)]"
  unfolding Let_def
  using handleApproachSelection_run [OF assms, of r w] by simp

theorem file_analysis_debits_before_backend_call_witness:
  "selectedFile scenario_index = Some ''ligand.mol2'' \<and>
   POINTS_COST quantum \<le> token_points (scenario_profile 50) \<and>
   profile (snd (handleApproachSelection quantum (Some (scenario_profile 50)) NetworkError
                  scenario_index (scenario_state 50))) = Some (scenario_profile 15) \<and>
   localStorage (snd (handleApproachSelection quantum (Some (scenario_profile 50)) NetworkError
                  scenario_index (scenario_state 50))) (profile_key ''u1'') =
     Some (scenario_profile 15) \<and>
   trace (snd (handleApproachSelection quantum (Some (scenario_profile 50)) NetworkError
                  scenario_index (scenario_state 50))) =
     [Call_updatePoints 15, SetItem (profile_key ''u1'') (scenario_profile 15),
      Toast (Deducted FileAnalysis 35 15), Toast (Starting quantum),
      Fetch ''/api/upload-and-process'', Toast (Failed FileAnalysis)]"
proof -
  have h1: "selectedFile scenario_index = Some ''ligand.mol2''"
    by (simp add: scenario_index_def)
  have h2: "POINTS_COST quantum \<le> token_points (scenario_profile 50)"
    by (simp add: POINTS_COST_def scenario_profile_def)
  have q: "POINTS_COST quantum = 35" "token_points (scenario_profile 50) = 50"
    "(scenario_profile 50)\<lparr>token_points := 15\<rparr> = scenario_profile 15"
    "id' (scenario_profile 50) = ''u1''" "token_points (scenario_profile 15) = 15"
    by (simp_all add: scenario_profile_def POINTS_COST_def)
  show ?thesis
    using h1 h2
      file_analysis_debits_before_backend_call [OF h1 h2, of NetworkError "scenario_state 50"]
    by (simp add: Let_def q scenario_state_def)
qed

text \<open>
  Claim C6. Resolution never fails. For a subject with no persisted profile, when the
  provider's \<^verbatim>\<open>getUser\<close> fails (the promise rejects, with any message, or it resolves without
  a user, which is how the provider reports an error), \<^verbatim>\<open>fetchUserProfile\<close> constructs the
  profile with that subject id, empty email and balance 1000, persists it under the
  subject's key and holds it. And whatever the storage and the provider's answer, a profile
  is held afterwards.
\<close>

theorem resolution_falls_back_on_provider_failure:
  assumes "localStorage w (profile_key userId) = None"
    and "gu = Rejected err \<or> gu = Resolved None"
  shows "(let p = \<lparr>id' = userId, email = [], token_points = 1000, created_at = now\<rparr>;
              w' = fetchUserProfile userId gu now w
          in profile w' = Some p \<and>
             localStorage w' = (localStorage w)(profile_key userId \<mapsto> p) \<and>
             trace w' = trace w @ [GetUser, SetItem (profile_key userId) p] \<and>
             loading w' = False) \<and>
         profile (fetchUserProfile uid g t v) \<noteq> None"
proof -
  have e: "(case gu of Resolved u \<Rightarrow> email_or_empty u | Rejected e \<Rightarrow> []) = []"
    using assms(2) by (auto simp: email_or_empty_def)
  have "profile (fetchUserProfile uid g t v) \<noteq> None"
    using fetchUserProfile_cases [of uid g t v]
    by (auto simp: fetchUserProfile_new_fields)
  then show ?thesis
    using e by (simp add: fetchUserProfile_absent [OF assms(1)] fetchUserProfile_new_fields)
qed

theorem resolution_falls_back_on_provider_failure_witness:
  "localStorage initial_state (profile_key ''u1'') = None \<and>
   profile (fetchUserProfile ''u1'' (Rejected ''fetch failed'') scenario_now initial_state) =
     Some \<lparr>id' = ''u1'', email = [], token_points = 1000, created_at = scenario_now\<rparr> \<and>
   localStorage (fetchUserProfile ''u1'' (Rejected ''fetch failed'') scenario_now initial_state)
       (profile_key ''u1'') =
     Some \<lparr>id' = ''u1'', email = [], token_points = 1000, created_at = scenario_now\<rparr>"
proof -
  have h1: "localStorage initial_state (profile_key ''u1'') = None"
    by (simp add: initial_state_def)
  have h2: "Rejected ''fetch failed'' = Rejected ''fetch failed'' \<or>
            (Rejected ''fetch failed'' :: User option promise) = Resolved None"
    by simp
  show ?thesis
    using h1 resolution_falls_back_on_provider_failure [OF h1 h2, of scenario_now]
    by (simp add: Let_def)
qed

text \<open>
  Claim C7. Round trip. After a profile \<open>P\<close> has been persisted under subject \<open>s\<close>, resolving
  \<open>s\<close> holds a profile equal to \<open>P\<close>, leaves the storage as it is and adds no event to the
  trace: the identity provider is not called.
\<close>

theorem persisted_profile_round_trip:
  "(let w0 = setItem (profile_key s) P w;
        w1 = fetchUserProfile s gu now w0
    in profile w1 = Some P \<and> localStorage w1 = localStorage w0 \<and>
       trace w1 = trace w0 \<and> GetUser \<notin> set (new_events w0 w1) \<and>
       user w1 = user w \<and> session w1 = session w \<and> loading w1 = False)"
  by (simp add: Let_def fetchUserProfile_def setItem_fields new_events_def)

theorem persisted_profile_round_trip_witness:
  "profile (fetchUserProfile ''u1'' (Rejected ''offline'') scenario_now
              (setItem (profile_key ''u1'') (scenario_profile 42) initial_state)) =
     Some (scenario_profile 42) \<and>
   trace (fetchUserProfile ''u1'' (Rejected ''offline'') scenario_now
              (setItem (profile_key ''u1'') (scenario_profile 42) initial_state)) =
     [SetItem (profile_key ''u1'') (scenario_profile 42)]"
  using persisted_profile_round_trip [of "''u1''" "scenario_profile 42" initial_state
      "Rejected ''offline''" scenario_now]
  by (simp add: Let_def setItem_fields initial_state_def)




text \<open>
  Claim C9, as stated, fails on a rejected initial fetch: \<^verbatim>\<open>getSession().then(...)\<close> has no
  rejection handler, so the callback does not run, \<open>loading\<close> stays true and the rejection is
  left unhandled.
\<close>

theorem rejected_initial_fetch_counterexample:
  "loading (initial_session_fetch (Rejected ''provider unavailable'') (Resolved None)
             ''2025-01-01T00:00:00.000Z'' initial_state) \<and>
   trace (initial_session_fetch (Rejected ''provider unavailable'') (Resolved None)
             ''2025-01-01T00:00:00.000Z'' initial_state) =
     [UnhandledRejection ''provider unavailable'']"
  by (simp add: initial_session_fetch_def emit_def initial_state_def)

text \<open>
  Claim C9, amended. For every resolved outcome of the initial session fetch, and for every
  delivery of the session-change feed, the observer leaves no unhandled rejection and
  resolves \<open>loading\<close>; an outcome without a session (which is how the provider reports an
  error: a resolved result whose session is null) ends unauthenticated, with no user and
  no session, the initial fetch keeping the held profile (none at start) and the feed
  clearing it.
\<close>

theorem resolved_session_fetch_is_contained:
  "(let w' = initial_session_fetch (Resolved s) gu now w
    in filter is_unhandled (new_events w w') = [] \<and> loading w' = False \<and>
       (s = None \<longrightarrow> user w' = None \<and> session w' = None \<and> profile w' = profile w \<and>
                     localStorage w' = localStorage w)) \<and>
   (let w' = onAuthStateChange ev s gu now w
    in filter is_unhandled (new_events w w') = [] \<and> loading w' = False \<and>
       (s = None \<longrightarrow> user w' = None \<and> session w' = None \<and> profile w' = None \<and>
                     localStorage w' = localStorage w))"
proof (cases s)
  case None
  then show ?thesis
    by (simp add: initial_session_fetch_def getSession_then_def onAuthStateChange_def
        new_events_def)
next
  case (Some ses)
  have t: "trace (w\<lparr>session := Some ses, user := Some (session_user ses)\<rparr>) = trace w"
    by simp
  show ?thesis
    using fetchUserProfile_frame(3,4)
      [where w = "w\<lparr>session := Some ses, user := Some (session_user ses)\<rparr>"
         and userId = "user_id (session_user ses)" and gu = gu and now = now]
    by (simp add: Some initial_session_fetch_def getSession_then_def onAuthStateChange_def
        new_events_def)
qed

theorem resolved_session_fetch_is_contained_witness:
  "user (initial_session_fetch (Resolved None) (Resolved None) scenario_now initial_state) = None \<and>
   session (initial_session_fetch (Resolved None) (Resolved None) scenario_now initial_state) = None \<and>
   profile (initial_session_fetch (Resolved None) (Resolved None) scenario_now initial_state) = None \<and>
   \<not> loading (initial_session_fetch (Resolved None) (Resolved None) scenario_now initial_state) \<and>
   profile (onAuthStateChange ''SIGNED_OUT'' None (Resolved None) scenario_now (scenario_state 50))
     = None \<and>
   \<not> loading (onAuthStateChange ''SIGNED_OUT'' None (Resolved None) scenario_now (scenario_state 50))"
proof -
  have h: "(None :: Session option) = None" by simp
  have i: "profile initial_state = None" by (simp add: initial_state_def)
  show ?thesis
    using h i
      resolved_session_fetch_is_contained [where s = None and gu = "Resolved None"
        and now = scenario_now and w = initial_state]
      resolved_session_fetch_is_contained [where s = None and gu = "Resolved None"
        and now = scenario_now and w = "scenario_state 50" and ev = "''SIGNED_OUT''"]
    by (simp add: Let_def)
qed

text \<open>
  Claim C10. Frame of \<^verbatim>\<open>updatePoints\<close>. Called from a render that holds profile \<open>p\<close>, it
  holds and persists (under the key of \<open>p\<close>, by one write) the profile that has the id, the
  email and the creation time of \<open>p\<close> and the argument as its balance; user, session and
  loading flag stay as they are. Called from a render that holds no profile, it returns
  the state unchanged.
\<close>

theorem updatePoints_frame:
  "updatePoints None n w = w \<and>
   (\<exists>q. profile (updatePoints (Some p) n w) = Some q \<and>
        localStorage (updatePoints (Some p) n w) = (localStorage w)(profile_key (id' p) \<mapsto> q) \<and>
        trace (updatePoints (Some p) n w) = trace w @ [SetItem (profile_key (id' p)) q] \<and>
        id' q = id' p \<and> email q = email p \<and> created_at q = created_at p \<and>
        token_points q = n) \<and>
   user (updatePoints (Some p) n w) = user w \<and>
   session (updatePoints (Some p) n w) = session w \<and>
   loading (updatePoints (Some p) n w) = loading w"
  by (simp add: updatePoints_None updatePoints_Some_fields)

theorem updatePoints_frame_witness:
  "updatePoints None 7 initial_state = initial_state \<and>
   profile (updatePoints (Some (scenario_profile 50)) 15 (scenario_state 50)) =
     Some (scenario_profile 15) \<and>
   localStorage (updatePoints (Some (scenario_profile 50)) 15 (scenario_state 50)) =
     [profile_key ''u1'' \<mapsto> scenario_profile 15] \<and>
   user (updatePoints (Some (scenario_profile 50)) 15 (scenario_state 50)) = Some scenario_user"
proof -
  obtain q where q: "profile (updatePoints (Some (scenario_profile 50)) 15 (scenario_state 50)) = Some q"
      "localStorage (updatePoints (Some (scenario_profile 50)) 15 (scenario_state 50)) =
         (localStorage (scenario_state 50))(profile_key (id' (scenario_profile 50)) \<mapsto> q)"
      "id' q = id' (scenario_profile 50)" "email q = email (scenario_profile 50)"
      "created_at q = created_at (scenario_profile 50)" "token_points q = 15"
    using updatePoints_frame [of 15 "scenario_state 50" "scenario_profile 50"] by blast
  have "q = scenario_profile 15"
    using q(3-6) by (cases q) (simp add: scenario_profile_def)
  then show ?thesis
    using q(1,2) updatePoints_frame [of 7 initial_state "scenario_profile 50"]
      updatePoints_frame [of 15 "scenario_state 50" "scenario_profile 50"]
    by (simp add: scenario_state_def scenario_profile_def)
qed

end
